theory Spec2Isabelle
  imports Complex_Main "HOL-Library.AList"
begin

section \<open>Sensor readings (sensor\_reader.py)\<close>

text \<open>
  Calls of the logger are left out throughout: \<open>shared.logger\<close> is not among the
  sources, a log call changes no attribute, and it is taken not to raise.

  The dataclass \<open>SensorReading\<close>. Numeric fields are Python floats; they are modelled as
  reals (every finite float is a real and the comparisons agree; NaN is outside the model).
  The timestamp is a \<open>datetime\<close>, kept abstract as the string \<open>isoformat()\<close> prints.
\<close>

record SensorReading =
  temperature :: "real option"
  humidity :: "real option"
  pressure :: "real option"
  timestamp :: string
  sensor_id :: string
  sensor_type :: string
  error :: "string option"

text \<open>
  The constructor call \<open>SensorReading(sensor_id=..., sensor_type=...)\<close>: every other field
  takes its default, and \<open>__post_init__\<close> fills the timestamp with \<open>datetime.now()\<close>,
  which is the parameter \<open>now\<close>.
\<close>

definition new_reading :: "string \<Rightarrow> string \<Rightarrow> string \<Rightarrow> SensorReading" where
  "new_reading now sid stype =
     \<lparr>temperature = None, humidity = None, pressure = None, timestamp = now,
      sensor_id = sid, sensor_type = stype, error = None\<rparr>"

text \<open>\<open>SensorReading.is_valid\<close> (lines 57-63).\<close>

definition is_valid :: "SensorReading \<Rightarrow> bool" where
  "is_valid r =
     (error r = None \<and>
       (temperature r \<noteq> None \<or> humidity r \<noteq> None \<or> pressure r \<noteq> None))"

text \<open>
  JSON-like values, for \<open>to_dict\<close> and for the payloads handed to the broker client.
\<close>

datatype json = JNull | JNum real | JStr string | JObj "(string \<times> json) list"

definition json_opt_num :: "real option \<Rightarrow> json" where
  "json_opt_num v = (case v of None \<Rightarrow> JNull | Some x \<Rightarrow> JNum x)"

definition json_opt_str :: "string option \<Rightarrow> json" where
  "json_opt_str v = (case v of None \<Rightarrow> JNull | Some x \<Rightarrow> JStr x)"

text \<open>\<open>SensorReading.to_dict\<close> (lines 45-55).\<close>

definition to_dict :: "SensorReading \<Rightarrow> (string \<times> json) list" where
  "to_dict r =
     [(''temperature'', json_opt_num (temperature r)),
      (''humidity'', json_opt_num (humidity r)),
      (''pressure'', json_opt_num (pressure r)),
      (''timestamp'', JStr (timestamp r)),
      (''sensor_id'', JStr (sensor_id r)),
      (''sensor_type'', JStr (sensor_type r)),
      (''error'', json_opt_str (error r))]"

section \<open>Sensor readers\<close>

text \<open>
  The class \<open>SensorReader\<close> and its subclasses. \<open>kind\<close> is the class of the object;
  \<open>sensor_present\<close> is the condition \<open>self.sensor and HAS_DHT\<close> (or \<open>HAS_DS18B20\<close>) that
  selects the hardware branch of \<open>read\<close>; \<open>drift\<close>, \<open>base_temp\<close> and \<open>base_humidity\<close>
  are the extra attributes of \<open>MockSensorReader\<close>.
\<close>

datatype reader_kind = BaseReader | DHT11Reader | DS18B20Reader | MockSensorReader

record SensorReader =
  rd_sensor_id :: string
  rd_sensor_type :: string
  kind :: reader_kind
  sensor_present :: bool
  last_reading :: "SensorReading option"
  error_count :: int
  max_errors :: int
  base_temp :: real
  base_humidity :: real
  drift :: real

text \<open>
  \<open>shared.constants\<close> is not among the sources, so the enumeration \<open>SensorType\<close> and the
  table \<open>SENSOR_RANGES\<close> are parameters: \<open>SensorType\<close> maps a string to a member of the
  enumeration, \<open>None\<close> standing for the \<open>ValueError\<close> of a string that names no member;
  \<open>SENSOR_RANGES\<close> maps a member to a dictionary from field names to range dictionaries
  with the optional keys \<open>min\<close> and \<open>max\<close>.
\<close>

type_synonym range = "string \<rightharpoonup> real"
type_synonym range_table = "string \<rightharpoonup> range"

text \<open>\<open>d.get(key, {})\<close>.\<close>

definition get_or_empty :: "('k \<rightharpoonup> ('a \<rightharpoonup> 'b)) \<Rightarrow> 'k \<Rightarrow> ('a \<rightharpoonup> 'b)" where
  "get_or_empty d k = (case d k of None \<Rightarrow> Map.empty | Some v \<Rightarrow> v)"

text \<open>
  \<open>'min' in rng and v < rng['min']\<close> and \<open>'max' in rng and v > rng['max']\<close>.
\<close>

definition below_min :: "range \<Rightarrow> real \<Rightarrow> bool" where
  "below_min rng v = (case rng ''min'' of None \<Rightarrow> False | Some m \<Rightarrow> v < m)"

definition above_max :: "range \<Rightarrow> real \<Rightarrow> bool" where
  "above_max rng v = (case rng ''max'' of None \<Rightarrow> False | Some m \<Rightarrow> v > m)"

text \<open>
  \<open>SensorReader.validate_reading\<close> (lines 82-116). The \<open>except Exception\<close> branch is
  reached by the \<open>ValueError\<close> of \<open>SensorType(self.sensor_type)\<close>; it returns \<open>False\<close>.
\<close>

definition validate_reading ::
  "(string \<Rightarrow> 'st option) \<Rightarrow> ('st \<rightharpoonup> range_table) \<Rightarrow> SensorReader \<Rightarrow> SensorReading \<Rightarrow> bool" where
  "validate_reading SensorType SENSOR_RANGES self reading =
     (if \<not> is_valid reading then False
      else
        (case SensorType (rd_sensor_type self) of
           None \<Rightarrow> False
         | Some st \<Rightarrow>
             (let ranges = get_or_empty SENSOR_RANGES st in
              if (case temperature reading of
                    None \<Rightarrow> False
                  | Some t \<Rightarrow>
                      (let temp_range = get_or_empty ranges ''temperature'' in
                       below_min temp_range t \<or> above_max temp_range t)) then False
              else if (case humidity reading of
                    None \<Rightarrow> False
                  | Some h \<Rightarrow>
                      (let hum_range = get_or_empty ranges ''humidity'' in
                       below_min hum_range h \<or> above_max hum_range h)) then False
              else if (case pressure reading of
                    None \<Rightarrow> False
                  | Some p \<Rightarrow>
                      (let press_range = get_or_empty ranges ''pressure'' in
                       below_min press_range p \<or> above_max press_range p)) then False
              else True)))"

text \<open>\<open>SensorReader.get_last_reading\<close> and \<open>SensorReader.is_healthy\<close>.\<close>

definition get_last_reading :: "SensorReader \<Rightarrow> SensorReading option" where
  "get_last_reading self = last_reading self"

definition is_healthy :: "SensorReader \<Rightarrow> bool" where
  "is_healthy self = (error_count self < max_errors self)"

text \<open>
  The claim's words about the range check, written separately from the code: a present
  numeric field lies outside the range configured for the reader's sensor type. A sensor
  type that names no member of \<open>SensorType\<close> has no range configured.
\<close>

definition outside_range :: "range_table \<Rightarrow> string \<Rightarrow> real option \<Rightarrow> bool" where
  "outside_range ranges field v =
     (case v of
        None \<Rightarrow> False
      | Some x \<Rightarrow>
          (case ranges field of
             None \<Rightarrow> False
           | Some rng \<Rightarrow>
               (case rng ''min'' of None \<Rightarrow> False | Some m \<Rightarrow> x < m) \<or>
               (case rng ''max'' of None \<Rightarrow> False | Some m \<Rightarrow> m < x)))"

definition some_field_outside_range ::
  "(string \<Rightarrow> 'st option) \<Rightarrow> ('st \<rightharpoonup> range_table) \<Rightarrow> SensorReader \<Rightarrow> SensorReading \<Rightarrow> bool" where
  "some_field_outside_range SensorType SENSOR_RANGES self reading =
     (case SensorType (rd_sensor_type self) of
        None \<Rightarrow> False
      | Some st \<Rightarrow>
          (case SENSOR_RANGES st of
             None \<Rightarrow> False
           | Some ranges \<Rightarrow>
               outside_range ranges ''temperature'' (temperature reading) \<or>
               outside_range ranges ''humidity'' (humidity reading) \<or>
               outside_range ranges ''pressure'' (pressure reading)))"

section \<open>Reading a sensor\<close>

text \<open>
  What a call of \<open>read\<close> takes from outside the program: the clock, the hardware driver,
  the random generator, and Python's \<open>round\<close> on floats (kept abstract: it is floating
  point). \<open>uniform1\<close>, \<open>uniform2\<close> and \<open>uniform3\<close> are the values of the successive
  calls of \<open>random.uniform\<close>, \<open>random_draw\<close> that of \<open>random.random()\<close>.
\<close>

datatype dht_outcome = DhtRaises string | DhtValues "real option" "real option"

datatype ds18b20_outcome = TemperatureRaises string | TemperatureValue real

record sensor_env =
  env_now :: string
  dht_driver :: dht_outcome
  ds18b20_driver :: ds18b20_outcome
  uniform1 :: real
  uniform2 :: real
  uniform3 :: real
  random_draw :: real
  py_round :: "real \<Rightarrow> nat \<Rightarrow> real"

text \<open>
  \<open>DHT11Reader.read\<close> (lines 149-187). With the hardware present, both driver
  properties are read; an exception of either is caught and becomes the reading's error.
  Without it, the \<open>else\<close> branch synthesises values and touches neither
  \<open>_error_count\<close> nor \<open>_last_reading\<close>.
\<close>

definition DHT11Reader_read :: "sensor_env \<Rightarrow> SensorReader \<Rightarrow> SensorReader \<times> SensorReading" where
  "DHT11Reader_read env self =
     (let reading = new_reading (env_now env) (rd_sensor_id self) (rd_sensor_type self) in
      if sensor_present self then
        (case dht_driver env of
           DhtRaises e \<Rightarrow>
             (self\<lparr>error_count := error_count self + 1\<rparr>, reading\<lparr>error := Some e\<rparr>)
         | DhtValues (Some t) (Some h) \<Rightarrow>
             (let reading' = reading\<lparr>temperature := Some (py_round env t 1),
                                     humidity := Some (py_round env h 1)\<rparr>
              in (self\<lparr>error_count := 0, last_reading := Some reading'\<rparr>, reading'))
         | DhtValues _ _ \<Rightarrow>
             (self\<lparr>error_count := error_count self + 1\<rparr>,
              reading\<lparr>error := Some ''Sensor returned None values''\<rparr>))
      else
        (self, reading\<lparr>temperature := Some (py_round env (20 + uniform1 env) 1),
                       humidity := Some (py_round env (50 + uniform2 env) 1)\<rparr>))"

text \<open>\<open>DS18B20Reader.read\<close> (lines 206-233).\<close>

definition DS18B20Reader_read :: "sensor_env \<Rightarrow> SensorReader \<Rightarrow> SensorReader \<times> SensorReading" where
  "DS18B20Reader_read env self =
     (let reading = new_reading (env_now env) (rd_sensor_id self) (rd_sensor_type self) in
      if sensor_present self then
        (case ds18b20_driver env of
           TemperatureRaises e \<Rightarrow>
             (self\<lparr>error_count := error_count self + 1\<rparr>, reading\<lparr>error := Some e\<rparr>)
         | TemperatureValue t \<Rightarrow>
             (let reading' = reading\<lparr>temperature := Some (py_round env t 2)\<rparr>
              in (self\<lparr>error_count := 0, last_reading := Some reading'\<rparr>, reading')))
      else
        (self, reading\<lparr>temperature := Some (py_round env (20 + uniform1 env) 2)\<rparr>))"

text \<open>\<open>MockSensorReader.read\<close> (lines 244-266).\<close>

definition MockSensorReader_read :: "sensor_env \<Rightarrow> SensorReader \<Rightarrow> SensorReader \<times> SensorReading" where
  "MockSensorReader_read env self =
     (let d = max (-2) (min 2 (drift self + uniform1 env));
          self1 = self\<lparr>drift := d\<rparr>;
          reading = (new_reading (env_now env) (rd_sensor_id self) (rd_sensor_type self))
            \<lparr>temperature := Some (py_round env (base_temp self + d + uniform2 env) 1),
             humidity := Some (py_round env (base_humidity self + uniform3 env) 1)\<rparr>
      in if random_draw env < 5 / 100 then
           (self1\<lparr>error_count := error_count self1 + 1\<rparr>,
            reading\<lparr>error := Some ''Simulated sensor error''\<rparr>)
         else
           (self1\<lparr>error_count := max 0 (error_count self1 - 1), last_reading := Some reading\<rparr>,
            reading))"

text \<open>
  \<open>read\<close>, dispatched on the class of the object. The base class raises
  \<open>NotImplementedError\<close> (line 80): \<open>Inl\<close> is the exception leaving \<open>read\<close>, carrying
  the text \<open>str(e)\<close> that \<open>read_all\<close> stores. The exception is raised without an
  argument, so that text is the empty string.
\<close>

definition read :: "sensor_env \<Rightarrow> SensorReader \<Rightarrow> string + (SensorReader \<times> SensorReading)" where
  "read env self =
     (case kind self of
        BaseReader \<Rightarrow> Inl []
      | DHT11Reader \<Rightarrow> Inr (DHT11Reader_read env self)
      | DS18B20Reader \<Rightarrow> Inr (DS18B20Reader_read env self)
      | MockSensorReader \<Rightarrow> Inr (MockSensorReader_read env self))"

section \<open>SensorManager\<close>

text \<open>
  \<open>self.sensors\<close> is a dictionary from sensor ids to readers, kept as an association list
  in insertion order. \<open>readings[sensor_id] = reading\<close> is \<open>AList.update\<close>: it replaces
  the value of a key that is there and adds a new key at the end.

  \<open>SensorManager.read_all\<close> (lines 300-319): the loop over \<open>self.sensors.items()\<close>, with
  the dictionary \<open>readings\<close> as accumulator. Each sensor is read in its own environment
  \<open>envs sensor_id\<close>. The readers are objects mutated by \<open>read\<close>, so the loop returns them
  as they are after the cycle.
\<close>

fun read_all_loop ::
  "(string \<Rightarrow> sensor_env) \<Rightarrow> (string \<times> SensorReader) list \<Rightarrow> (string \<times> SensorReading) list \<Rightarrow>
     (string \<times> SensorReader) list \<times> (string \<times> SensorReading) list" where
  "read_all_loop envs [] readings = ([], readings)"
| "read_all_loop envs ((sid, sensor) # rest) readings =
     (case read (envs sid) sensor of
        Inr (sensor', reading) \<Rightarrow>
          (let (rest', out) = read_all_loop envs rest (AList.update sid reading readings)
           in ((sid, sensor') # rest', out))
      | Inl e \<Rightarrow>
          (let reading = (new_reading (env_now (envs sid)) sid [])\<lparr>error := Some e\<rparr>;
               (rest', out) = read_all_loop envs rest (AList.update sid reading readings)
           in ((sid, sensor) # rest', out)))"

definition read_all ::
  "(string \<Rightarrow> sensor_env) \<Rightarrow> (string \<times> SensorReader) list \<Rightarrow>
     (string \<times> SensorReader) list \<times> (string \<times> SensorReading) list" where
  "read_all envs sensors = read_all_loop envs sensors []"

section \<open>The broker client (mqtt\_client.py)\<close>

text \<open>
  The paho client object behind \<open>self.client\<close> is outside the program. What the program
  asks of it, and the other effects of the program that the claims speak of (the backoff
  sleep, the heartbeat thread, the user's callbacks), are recorded as a list of effects in
  the order they happen. What the paho client answers is an input of each operation.
\<close>

datatype 'a outcome = Returns 'a | Raises string

text \<open>
  The answers to \<open>_publish\<close>: \<open>json.dumps\<close> raises, \<open>self.client.publish\<close> raises, or it
  returns a result whose \<open>rc\<close> is given.
\<close>

datatype publish_outcome = DumpsRaises string | PublishRaises string | PublishReturns int

text \<open>
  \<open>MQTT_TOPICS[key].format(client_id=self.client_id)\<close>: the table \<open>MQTT_TOPICS\<close> of
  \<open>shared.constants\<close> is not among the sources, so a topic is kept as the key and the
  client id it is formatted with.
\<close>

datatype topic = Topic string string

text \<open>
  The payload dictionaries of the four publish helpers; the entry \<open>message_type\<close> is the
  constructor (\<open>MessageType\<close> is in \<open>shared.constants\<close> too).
\<close>

datatype payload =
    SensorDataPayload string string "(string \<times> json) list" string
  | StatusPayload string string string "string option"
  | HeartbeatPayload string string
  | DebugPayload string string "(string \<times> json) list" string

datatype effect =
    ClientConnect string int int
  | LoopStart
  | LoopStop
  | ClientDisconnect
  | ClientPublish topic payload int bool
  | ClientSubscribe topic int
  | ClientReconnect
  | Sleep nat
  | HeartbeatStart
  | HeartbeatJoin
  | ConnectCallback
  | DisconnectCallback

record mqtt_env =
  mqtt_now :: string
  connect_result :: "int outcome"
  publish_result :: publish_outcome
  subscribe_result :: "int outcome"

text \<open>The entries of \<open>config\<close> that the modelled methods read.\<close>

record mqtt_config =
  cfg_host :: "string option"
  cfg_port :: "int option"
  cfg_keepalive :: "int option"
  cfg_max_reconnect_attempts :: "int option"

text \<open>
  The attributes of \<open>MQTTClient\<close>. \<open>client\<close> is true when \<open>self.client\<close> is a paho client
  and false when it is \<open>None\<close>. \<open>reconnect_attempts\<close> starts at 0 and is only ever
  incremented or reset to 0, so it is a natural number; \<open>max_reconnect_attempts\<close> comes
  from the configuration and is any integer. \<open>stop_event\<close> is \<open>_stop_event.is_set()\<close>,
  \<open>heartbeat_thread\<close> is true once \<open>_heartbeat_thread\<close> holds a thread, and the two
  callback attributes are true when a callable is registered.
\<close>

record MQTTClient =
  config :: mqtt_config
  client_id :: string
  client :: bool
  connected :: bool
  reconnect_attempts :: nat
  max_reconnect_attempts :: int
  stop_event :: bool
  heartbeat_thread :: bool
  on_connect_callback :: bool
  on_disconnect_callback :: bool

definition MQTT_ERR_SUCCESS :: int where
  "MQTT_ERR_SUCCESS = 0"

text \<open>
  \<open>MQTTClient.__init__\<close> (lines 27-53). \<open>uuid8\<close> is \<open>uuid.uuid4().hex[:8]\<close>, and
  \<open>HAS_MQTT\<close> says whether the import of paho succeeded. \<open>_setup_client\<close> only configures
  the paho client (callbacks, credentials, TLS, last will) and changes no attribute.
\<close>

definition MQTTClient_init :: "mqtt_config \<Rightarrow> string option \<Rightarrow> string \<Rightarrow> bool \<Rightarrow> MQTTClient" where
  "MQTTClient_init cfg cid uuid8 HAS_MQTT =
     \<lparr>config = cfg,
      client_id = (case cid of
                     None \<Rightarrow> ''iot_client_'' @ uuid8
                   | Some c \<Rightarrow> if c = [] then ''iot_client_'' @ uuid8 else c),
      client = HAS_MQTT,
      connected = False,
      reconnect_attempts = 0,
      max_reconnect_attempts =
        (case cfg_max_reconnect_attempts cfg of None \<Rightarrow> 10 | Some m \<Rightarrow> m),
      stop_event = False,
      heartbeat_thread = False,
      on_connect_callback = False,
      on_disconnect_callback = False\<rparr>"

text \<open>\<open>MQTTClient.connect\<close> (lines 99-122): the new state is the old one.\<close>

definition connect :: "MQTTClient \<Rightarrow> mqtt_env \<Rightarrow> bool \<times> effect list" where
  "connect self env =
     (if \<not> client self then (False, [])
      else
        (let host = (case cfg_host (config self) of None \<Rightarrow> ''localhost'' | Some h \<Rightarrow> h);
             port = (case cfg_port (config self) of None \<Rightarrow> 1883 | Some p \<Rightarrow> p);
             keepalive = (case cfg_keepalive (config self) of None \<Rightarrow> 60 | Some k \<Rightarrow> k)
         in case connect_result env of
              Raises e \<Rightarrow> (False, [ClientConnect host port keepalive])
            | Returns result \<Rightarrow>
                if result = MQTT_ERR_SUCCESS
                then (True, [ClientConnect host port keepalive, LoopStart])
                else (False, [ClientConnect host port keepalive])))"

text \<open>\<open>MQTTClient._publish\<close> (lines 201-219).\<close>

definition publish ::
  "MQTTClient \<Rightarrow> mqtt_env \<Rightarrow> topic \<Rightarrow> payload \<Rightarrow> int \<Rightarrow> bool \<Rightarrow> bool \<times> effect list" where
  "publish self env tp pl qos retain =
     (if \<not> client self \<or> \<not> connected self then (False, [])
      else
        (case publish_result env of
           DumpsRaises e \<Rightarrow> (False, [])
         | PublishRaises e \<Rightarrow> (False, [ClientPublish tp pl qos retain])
         | PublishReturns rc \<Rightarrow> (rc = MQTT_ERR_SUCCESS, [ClientPublish tp pl qos retain])))"

text \<open>\<open>MQTTClient.publish_sensor_data\<close> (lines 143-159).\<close>

definition publish_sensor_data ::
  "MQTTClient \<Rightarrow> mqtt_env \<Rightarrow> string \<Rightarrow> (string \<times> json) list \<Rightarrow> bool \<times> effect list" where
  "publish_sensor_data self env sid data =
     (if \<not> connected self then (False, [])
      else publish self env (Topic ''sensor_data'' (client_id self))
             (SensorDataPayload sid (client_id self) data (mqtt_now env)) 1 False)"

text \<open>\<open>MQTTClient.publish_status\<close> (lines 161-173).\<close>

definition publish_status ::
  "MQTTClient \<Rightarrow> mqtt_env \<Rightarrow> string \<Rightarrow> string option \<Rightarrow> bool \<times> effect list" where
  "publish_status self env status reason =
     publish self env (Topic ''sensor_status'' (client_id self))
       (StatusPayload (client_id self) status (mqtt_now env) reason) 1 True"

text \<open>\<open>MQTTClient.publish_heartbeat\<close> (lines 175-185).\<close>

definition publish_heartbeat :: "MQTTClient \<Rightarrow> mqtt_env \<Rightarrow> bool \<times> effect list" where
  "publish_heartbeat self env =
     publish self env (Topic ''heartbeat'' (client_id self))
       (HeartbeatPayload (client_id self) (mqtt_now env)) 1 False"

text \<open>\<open>MQTTClient.publish_debug\<close> (lines 187-199); \<open>data or {}\<close> is the empty dictionary
  for \<open>None\<close>.\<close>

definition publish_debug ::
  "MQTTClient \<Rightarrow> mqtt_env \<Rightarrow> string \<Rightarrow> (string \<times> json) list option \<Rightarrow> bool \<times> effect list" where
  "publish_debug self env message data =
     publish self env (Topic ''debug'' (client_id self))
       (DebugPayload (client_id self) message (case data of None \<Rightarrow> [] | Some d \<Rightarrow> d)
          (mqtt_now env)) 1 False"

text \<open>\<open>MQTTClient.subscribe\<close> (lines 221-237).\<close>

definition subscribe :: "MQTTClient \<Rightarrow> mqtt_env \<Rightarrow> topic \<Rightarrow> int \<Rightarrow> bool \<times> effect list" where
  "subscribe self env tp qos =
     (if \<not> client self \<or> \<not> connected self then (False, [])
      else
        (case subscribe_result env of
           Raises e \<Rightarrow> (False, [ClientSubscribe tp qos])
         | Returns rc \<Rightarrow> (rc = MQTT_ERR_SUCCESS, [ClientSubscribe tp qos])))"

text \<open>
  \<open>MQTTClient.disconnect\<close> (lines 124-141). The attribute \<open>connected\<close> is not written
  here: only the disconnect callback clears it.
\<close>

definition disconnect :: "MQTTClient \<Rightarrow> mqtt_env \<Rightarrow> MQTTClient \<times> effect list" where
  "disconnect self env =
     (if \<not> client self then (self, [])
      else
        (let self1 = self\<lparr>stop_event := True\<rparr>;
             joined = (if heartbeat_thread self1 then [HeartbeatJoin] else []);
             published = (if connected self1
                          then snd (publish_status self1 env ''offline'' (Some ''graceful_disconnect''))
                          else [])
         in (self1, joined @ published @ [LoopStop, ClientDisconnect])))"

text \<open>
  \<open>MQTTClient._start_heartbeat\<close> (lines 325-331). The heartbeat thread runs
  \<open>_heartbeat_loop\<close>, which leaves its loop once the stop event is set, so the thread is
  alive as long as the stop event is clear.
\<close>

definition start_heartbeat :: "MQTTClient \<Rightarrow> MQTTClient \<times> effect list" where
  "start_heartbeat self =
     (if heartbeat_thread self \<and> \<not> stop_event self then (self, [])
      else (self\<lparr>heartbeat_thread := True\<rparr>, [HeartbeatStart]))"

text \<open>One pass of the body of \<open>MQTTClient._heartbeat_loop\<close> (lines 333-341).\<close>

definition heartbeat_loop_body :: "MQTTClient \<Rightarrow> mqtt_env \<Rightarrow> effect list" where
  "heartbeat_loop_body self env =
     (if heartbeat_thread self \<and> \<not> stop_event self
      then (if connected self then snd (publish_heartbeat self env) else [])
      else [])"

text \<open>
  \<open>MQTTClient._attempt_reconnect\<close> (lines 308-323). An exception of
  \<open>self.client.reconnect()\<close> is caught and logged, so the state afterwards does not depend
  on how the call ends. Without a paho client the attribute access raises before any call
  is made, and that exception is caught as well.
\<close>

definition attempt_reconnect :: "MQTTClient \<Rightarrow> MQTTClient \<times> effect list" where
  "attempt_reconnect self =
     (if int (reconnect_attempts self) \<ge> max_reconnect_attempts self then (self, [])
      else
        (let self1 = self\<lparr>reconnect_attempts := reconnect_attempts self + 1\<rparr>;
             delay = min 30 (2 ^ reconnect_attempts self1)
         in (self1, Sleep delay # (if client self1 then [ClientReconnect] else []))))"

text \<open>\<open>MQTTClient._on_connect\<close> (lines 239-259).\<close>

definition on_connect :: "MQTTClient \<Rightarrow> mqtt_env \<Rightarrow> int \<Rightarrow> MQTTClient \<times> effect list" where
  "on_connect self env rc =
     (if rc = 0 then
        (let self1 = self\<lparr>connected := True, reconnect_attempts := 0\<rparr>;
             subscribed = snd (subscribe self1 env (Topic ''config'' (client_id self1)) 1);
             published = snd (publish_status self1 env ''online'' (Some ''connected''));
             (self2, started) = start_heartbeat self1;
             called = (if on_connect_callback self2 then [ConnectCallback] else [])
         in (self2, subscribed @ published @ started @ called))
      else (self, []))"

text \<open>\<open>MQTTClient._on_disconnect\<close> (lines 261-271).\<close>

definition on_disconnect :: "MQTTClient \<Rightarrow> int \<Rightarrow> MQTTClient \<times> effect list" where
  "on_disconnect self rc =
     (let self1 = self\<lparr>connected := False\<rparr>;
          called = (if on_disconnect_callback self1 then [DisconnectCallback] else [])
      in if rc \<noteq> MQTT_ERR_SUCCESS \<and> \<not> stop_event self1
         then (let (self2, effs) = attempt_reconnect self1 in (self2, called @ effs))
         else (self1, called))"

text \<open>\<open>MQTTClient.is_connected\<close> and \<open>MQTTClient.get_status\<close> (lines 343-355).\<close>

definition is_connected :: "MQTTClient \<Rightarrow> bool" where
  "is_connected self = connected self"

record client_status =
  status_client_id :: string
  status_connected :: bool
  status_reconnect_attempts :: nat
  status_broker_host :: "string option"
  status_broker_port :: "int option"

definition get_status :: "MQTTClient \<Rightarrow> client_status" where
  "get_status self =
     \<lparr>status_client_id = client_id self,
      status_connected = connected self,
      status_reconnect_attempts = reconnect_attempts self,
      status_broker_host = cfg_host (config self),
      status_broker_port = cfg_port (config self)\<rparr>"

section \<open>Runs of the broker client\<close>

text \<open>
  A run of the client is a sequence of events: calls of its public methods by the
  application, the two callbacks that the paho network thread delivers, and passes of the
  heartbeat loop. Each event comes with the answers of the outside world for it.
\<close>

datatype call =
    Connect
  | Disconnect
  | PublishSensorData string "(string \<times> json) list"
  | PublishStatus string "string option"
  | PublishHeartbeat
  | PublishDebug string "(string \<times> json) list option"
  | Subscribe topic int

datatype event = Call call | OnConnect int | OnDisconnect int | HeartbeatTick

text \<open>The value a call returns (\<open>None\<close> for \<open>disconnect\<close>, which returns nothing).\<close>

definition do_call :: "MQTTClient \<Rightarrow> mqtt_env \<Rightarrow> call \<Rightarrow> MQTTClient \<times> bool option \<times> effect list" where
  "do_call self env c =
     (case c of
        Connect \<Rightarrow> (self, Some (fst (connect self env)), snd (connect self env))
      | Disconnect \<Rightarrow> (fst (disconnect self env), None, snd (disconnect self env))
      | PublishSensorData sid data \<Rightarrow>
          (self, Some (fst (publish_sensor_data self env sid data)),
           snd (publish_sensor_data self env sid data))
      | PublishStatus status reason \<Rightarrow>
          (self, Some (fst (publish_status self env status reason)),
           snd (publish_status self env status reason))
      | PublishHeartbeat \<Rightarrow>
          (self, Some (fst (publish_heartbeat self env)), snd (publish_heartbeat self env))
      | PublishDebug message data \<Rightarrow>
          (self, Some (fst (publish_debug self env message data)),
           snd (publish_debug self env message data))
      | Subscribe tp qos \<Rightarrow>
          (self, Some (fst (subscribe self env tp qos)), snd (subscribe self env tp qos)))"

definition step :: "MQTTClient \<Rightarrow> event \<times> mqtt_env \<Rightarrow> MQTTClient \<times> effect list" where
  "step self ev =
     (case fst ev of
        Call c \<Rightarrow> (fst (do_call self (snd ev) c), snd (snd (do_call self (snd ev) c)))
      | OnConnect rc \<Rightarrow> on_connect self (snd ev) rc
      | OnDisconnect rc \<Rightarrow> on_disconnect self rc
      | HeartbeatTick \<Rightarrow> (self, heartbeat_loop_body self (snd ev)))"

text \<open>The state after a run, the states passed through, and the effects in order.\<close>

fun run :: "MQTTClient \<Rightarrow> (event \<times> mqtt_env) list \<Rightarrow> MQTTClient" where
  "run self [] = self"
| "run self (ev # evs) = run (fst (step self ev)) evs"

fun run_states :: "MQTTClient \<Rightarrow> (event \<times> mqtt_env) list \<Rightarrow> MQTTClient list" where
  "run_states self [] = [self]"
| "run_states self (ev # evs) = self # run_states (fst (step self ev)) evs"

fun run_effects :: "MQTTClient \<Rightarrow> (event \<times> mqtt_env) list \<Rightarrow> effect list" where
  "run_effects self [] = []"
| "run_effects self (ev # evs) = snd (step self ev) @ run_effects (fst (step self ev)) evs"

text \<open>The values returned by a sequence of calls, and the state after them.\<close>

fun run_calls :: "MQTTClient \<Rightarrow> (call \<times> mqtt_env) list \<Rightarrow> MQTTClient \<times> bool option list" where
  "run_calls self [] = (self, [])"
| "run_calls self (c # cs) =
     (let (self1, r, effs) = do_call self (snd c) (fst c);
          (self2, rs) = run_calls self1 cs
      in (self2, r # rs))"

text \<open>
  The effects of the automatic reconnect path: the backoff sleep and the reconnect call.
\<close>

fun is_reconnect_effect :: "effect \<Rightarrow> bool" where
  "is_reconnect_effect (Sleep d) = True"
| "is_reconnect_effect ClientReconnect = True"
| "is_reconnect_effect _ = False"

text \<open>
  A connection is established by the acknowledgement with code 0 that follows a
  \<open>connect()\<close>: \<open>connect()\<close> itself writes no attribute.
\<close>

fun establishes_connection :: "event \<times> mqtt_env \<Rightarrow> bool" where
  "establishes_connection (OnConnect rc, env) = (rc = 0)"
| "establishes_connection _ = False"

section \<open>The agent's poll cycle (main.py)\<close>

text \<open>
  What the publish part of a cycle does for a reading: it calls \<open>publish_sensor_data\<close>
  (with the value returned and the effects on the paho client), it skips the reading
  because the client is not connected, or it logs the reading as invalid.
\<close>

datatype agent_action =
    PublishSensorDataCall string "(string \<times> json) list" bool "effect list"
  | NotConnectedWarning string
  | InvalidReadingWarning string

text \<open>
  \<open>IoTSensorClient._publish_sensor_reading\<close> (lines 161-173); \<open>self.mqtt_client\<close> is
  \<open>None\<close> before \<open>initialize\<close>.
\<close>

definition publish_sensor_reading ::
  "MQTTClient option \<Rightarrow> mqtt_env \<Rightarrow> string \<Rightarrow> SensorReading \<Rightarrow> agent_action list" where
  "publish_sensor_reading mqtt_client env sid reading =
     (case mqtt_client of
        None \<Rightarrow> [NotConnectedWarning sid]
      | Some c \<Rightarrow>
          if \<not> is_connected c then [NotConnectedWarning sid]
          else
            (let data = to_dict reading;
                 (success, effs) = publish_sensor_data c env sid data
             in [PublishSensorDataCall sid data success effs]))"

text \<open>
  The loop over \<open>readings.items()\<close> in \<open>IoTSensorClient._main_loop\<close> (lines 148-152),
  and the body of one cycle (lines 145-152): \<open>read_all\<close>, then that loop.
\<close>

fun publish_readings ::
  "MQTTClient option \<Rightarrow> (string \<Rightarrow> mqtt_env) \<Rightarrow> (string \<times> SensorReading) list \<Rightarrow> agent_action list" where
  "publish_readings mqtt_client envs [] = []"
| "publish_readings mqtt_client envs ((sid, reading) # rest) =
     (if is_valid reading then publish_sensor_reading mqtt_client (envs sid) sid reading
      else [InvalidReadingWarning sid])
     @ publish_readings mqtt_client envs rest"

definition main_loop_cycle ::
  "(string \<times> SensorReader) list \<Rightarrow> MQTTClient option \<Rightarrow> (string \<Rightarrow> sensor_env) \<Rightarrow>
     (string \<Rightarrow> mqtt_env) \<Rightarrow> (string \<times> SensorReader) list \<times> agent_action list" where
  "main_loop_cycle sensors mqtt_client senvs menvs =
     (let (sensors', readings) = read_all senvs sensors
      in (sensors', publish_readings mqtt_client menvs readings))"

text \<open>The calls of \<open>publish_sensor_data\<close> among the actions: sensor id and data.\<close>

fun sensor_data_calls :: "agent_action list \<Rightarrow> (string \<times> (string \<times> json) list) list" where
  "sensor_data_calls [] = []"
| "sensor_data_calls (PublishSensorDataCall sid data success effs # as) =
     (sid, data) # sensor_data_calls as"
| "sensor_data_calls (a # as) = sensor_data_calls as"

section \<open>Auxiliary notions for the properties\<close>

text \<open>
  The entry that \<open>read_all\<close> stores for a sensor: the reading that \<open>read\<close> returns, or
  the error-tagged reading built in the \<open>except\<close> branch.
\<close>

definition entry_for :: "(string \<Rightarrow> sensor_env) \<Rightarrow> string \<Rightarrow> SensorReader \<Rightarrow> SensorReading" where
  "entry_for envs sid sensor =
     (case read (envs sid) sensor of
        Inr (sensor', reading) \<Rightarrow> reading
      | Inl e \<Rightarrow> (new_reading (env_now (envs sid)) sid [])\<lparr>error := Some e\<rparr>)"

text \<open>The client is disconnected and has used up its reconnect attempts.\<close>

definition exhausted :: "MQTTClient \<Rightarrow> bool" where
  "exhausted self =
     (\<not> connected self \<and> max_reconnect_attempts self \<le> int (reconnect_attempts self))"

text \<open>A call of \<open>connect()\<close> by the application.\<close>

fun is_manual_connect :: "event \<times> mqtt_env \<Rightarrow> bool" where
  "is_manual_connect (Call Connect, env) = True"
| "is_manual_connect _ = False"

text \<open>What each call returns on a client that has no paho client and is not connected.\<close>

definition call_result_without_client :: "call \<Rightarrow> bool option" where
  "call_result_without_client c = (case c of Disconnect \<Rightarrow> None | _ \<Rightarrow> Some False)"

section \<open>Concrete instances\<close>

text \<open>
  A broker configuration, the answers of a broker that accepts everything, and a client
  constructed with the paho library available.
\<close>

definition example_config :: mqtt_config where
  "example_config =
     \<lparr>cfg_host = Some ''broker.local'', cfg_port = Some 1883, cfg_keepalive = None,
      cfg_max_reconnect_attempts = None\<rparr>"

definition example_env :: mqtt_env where
  "example_env =
     \<lparr>mqtt_now = ''2024-01-01T00:00:00'', connect_result = Returns 0,
      publish_result = PublishReturns 0, subscribe_result = Returns 0\<rparr>"

definition example_client :: MQTTClient where
  "example_client = MQTTClient_init example_config (Some ''pi_01'') ''0a1b2c3d'' True"

definition example_events :: "(event \<times> mqtt_env) list" where
  "example_events =
     [(OnDisconnect 7, example_env),
      (Call (PublishSensorData ''sensor_001'' []), example_env),
      (Call Connect, example_env),
      (OnConnect 5, example_env),
      (HeartbeatTick, example_env),
      (OnDisconnect 1, example_env)]"

definition example_calls :: "(call \<times> mqtt_env) list" where
  "example_calls =
     [(Connect, example_env), (PublishHeartbeat, example_env), (Disconnect, example_env),
      (PublishSensorData ''sensor_001'' [], example_env)]"

text \<open>
  A client allowed a single reconnect attempt, after this history: \<open>connect()\<close>, the
  acknowledgement, then a broker-side drop with code 1, which makes the one attempt
  (sleep 2 seconds, \<open>reconnect()\<close>).
\<close>

definition example_single_attempt_client :: MQTTClient where
  "example_single_attempt_client =
     run (MQTTClient_init (example_config\<lparr>cfg_max_reconnect_attempts := Some 1\<rparr>)
            (Some ''pi_01'') ''0a1b2c3d'' True)
       [(Call Connect, example_env), (OnConnect 0, example_env), (OnDisconnect 1, example_env)]"

text \<open>
  Modelled from the spec: the table \<open>SENSOR_RANGES\<close> and the enumeration \<open>SensorType\<close>
  of \<open>shared.constants\<close>, which is not among the sources. The spec gives a DHT11
  temperature range with a maximum of about 50; the other bounds are sample values. The
  properties below hold for every table; this one only instantiates them.
\<close>

definition example_SensorType :: "string \<Rightarrow> string option" where
  "example_SensorType s =
     (if s \<in> set [''DHT11'', ''DHT22'', ''DS18B20''] then Some s else None)"

definition example_SENSOR_RANGES :: "string \<rightharpoonup> range_table" where
  "example_SENSOR_RANGES =
     [''DHT11'' \<mapsto>
        [''temperature'' \<mapsto> [''min'' \<mapsto> 0, ''max'' \<mapsto> 50],
         ''humidity'' \<mapsto> [''min'' \<mapsto> 20, ''max'' \<mapsto> 90]]]"

text \<open>Rounding half up to \<open>n\<close> decimals stands in for \<open>round\<close> in the instances.\<close>

definition example_round :: "real \<Rightarrow> nat \<Rightarrow> real" where
  "example_round x n = real_of_int \<lfloor>x * 10 ^ n + 1 / 2\<rfloor> / 10 ^ n"

definition example_sensor_env :: sensor_env where
  "example_sensor_env =
     \<lparr>env_now = ''2024-01-01T00:00:00'', dht_driver = DhtValues (Some 21) (Some 55),
      ds18b20_driver = TemperatureValue 21, uniform1 = 1, uniform2 = 2, uniform3 = 3,
      random_draw = 1 / 2, py_round = example_round\<rparr>"

text \<open>A driver that reports 150 degrees.\<close>

definition example_hot_env :: sensor_env where
  "example_hot_env = example_sensor_env\<lparr>dht_driver := DhtValues (Some 150) (Some 60)\<rparr>"

text \<open>
  A \<open>DHT11Reader\<close> on a machine without the DHT library (\<open>self.sensor\<close> is \<open>None\<close>), the
  same reader with the hardware present, and an object of the base class.
\<close>

definition example_reader :: SensorReader where
  "example_reader =
     \<lparr>rd_sensor_id = ''sensor_001'', rd_sensor_type = ''DHT11'', kind = DHT11Reader,
      sensor_present = False, last_reading = None, error_count = 0, max_errors = 5,
      base_temp = 22, base_humidity = 60, drift = 0\<rparr>"

definition example_hardware_reader :: SensorReader where
  "example_hardware_reader = example_reader\<lparr>sensor_present := True\<rparr>"

definition example_base_reader :: SensorReader where
  "example_base_reader = example_reader\<lparr>rd_sensor_id := ''sensor_002'', kind := BaseReader\<rparr>"

definition example_sensors :: "(string \<times> SensorReader) list" where
  "example_sensors = [(''sensor_001'', example_reader), (''sensor_002'', example_base_reader)]"

text \<open>
  A reading with temperature \<open>t\<close> and humidity 60, and the reading that
  \<open>MockSensorReader.read\<close> returns when it simulates an error: values present, error set.
\<close>

definition example_reading :: "real \<Rightarrow> SensorReading" where
  "example_reading t =
     (new_reading ''2024-01-01T00:00:00'' ''sensor_001'' ''DHT11'')
       \<lparr>temperature := Some t, humidity := Some 60\<rparr>"

definition example_error_reading :: SensorReading where
  "example_error_reading = (example_reading 22)\<lparr>error := Some ''Simulated sensor error''\<rparr>"

section \<open>Facts collected for evaluation\<close>

lemmas example_client_defs =
  example_client_def example_config_def example_env_def MQTTClient_init_def

lemmas client_defs =
  step_def do_call_def connect_def disconnect_def publish_def publish_sensor_data_def
  publish_status_def publish_heartbeat_def publish_debug_def subscribe_def
  start_heartbeat_def heartbeat_loop_body_def attempt_reconnect_def on_connect_def
  on_disconnect_def get_status_def is_connected_def MQTT_ERR_SUCCESS_def Let_def

lemmas example_sensor_defs =
  example_SensorType_def example_SENSOR_RANGES_def example_reader_def example_reading_def
  example_error_reading_def new_reading_def

section \<open>Validity of a reading\<close>

text \<open>
  Claim C5. For every \<open>SensorReading\<close> \<open>r\<close>, \<open>r.is_valid()\<close> returns true if and only if
  \<open>r.error\<close> is \<open>None\<close> and at least one of \<open>r.temperature\<close>, \<open>r.humidity\<close>,
  \<open>r.pressure\<close> is not \<open>None\<close>.
\<close>

theorem is_valid_iff:
  "is_valid r \<longleftrightarrow>
     error r = None \<and> (\<exists>v. temperature r = Some v \<or> humidity r = Some v \<or> pressure r = Some v)"
  by (auto simp: is_valid_def)

text \<open>
  At three readings: values and no error; values and an error; neither values nor error.
\<close>

theorem is_valid_iff_witness:
  "is_valid (example_reading 22) \<and> \<not> is_valid example_error_reading \<and>
   \<not> is_valid (new_reading ''2024-01-01T00:00:00'' ''sensor_001'' ''DHT11'')"
  using is_valid_iff [of "example_reading 22"] is_valid_iff [of example_error_reading]
    is_valid_iff [of "new_reading ''2024-01-01T00:00:00'' ''sensor_001'' ''DHT11''"]
  by (auto simp: example_sensor_defs)

section \<open>The range check\<close>

lemma outside_range_iff:
  "outside_range ranges field (Some x) \<longleftrightarrow>
     below_min (get_or_empty ranges field) x \<or> above_max (get_or_empty ranges field) x"
  by (simp add: outside_range_def below_min_def above_max_def get_or_empty_def
      split: option.splits)

lemma outside_range_None: "\<not> outside_range ranges field None"
  by (simp add: outside_range_def)

lemma get_or_empty_Some: "d k = Some v \<Longrightarrow> get_or_empty d k = v"
  by (simp add: get_or_empty_def)

text \<open>
  Claim C6 as it is written says that \<open>validate_reading\<close> returns false when a present
  field lies outside its range and true otherwise. It fails at the reading of a simulated
  sensor error: temperature 22 and humidity 60 are inside the DHT11 ranges, yet the guard
  \<open>if not reading.is_valid(): return False\<close> rejects the reading.
\<close>

theorem validate_reading_counterexample:
  "\<not> (validate_reading example_SensorType example_SENSOR_RANGES example_reader
         example_error_reading
       = (\<not> some_field_outside_range example_SensorType example_SENSOR_RANGES example_reader
              example_error_reading))"
  by (simp add: validate_reading_def some_field_outside_range_def outside_range_def
      is_valid_def example_sensor_defs)

text \<open>
  Claim C6, amended. For every \<open>SensorReader\<close> and every reading,
  \<open>validate_reading(reading)\<close> returns true if and only if the reading is valid
  (\<open>is_valid()\<close>), the reader's sensor type names a member of \<open>SensorType\<close>, and no present
  numeric field (temperature, humidity, pressure) lies outside the min/max range
  configured for that sensor type; it returns false in every other case.
\<close>

theorem validate_reading_iff:
  "validate_reading ST SR self r \<longleftrightarrow>
     is_valid r \<and> ST (rd_sensor_type self) \<noteq> None \<and> \<not> some_field_outside_range ST SR self r"
proof (cases "ST (rd_sensor_type self)")
  case None
  then show ?thesis
    by (simp add: validate_reading_def)
next
  case (Some st)
  show ?thesis
  proof (cases "SR st")
    case None
    with Some show ?thesis
      by (simp add: validate_reading_def some_field_outside_range_def get_or_empty_def
          below_min_def above_max_def split: option.splits)
  next
    case inner: (Some ranges)
    with Some show ?thesis
      by (cases "temperature r"; cases "humidity r"; cases "pressure r")
        (simp_all add: validate_reading_def some_field_outside_range_def Let_def
          outside_range_iff outside_range_None get_or_empty_Some)
  qed
qed

text \<open>
  At the readings of the spec's test (temperature 150 against the DHT11 maximum of 50 is
  rejected, 22 is accepted), at the error-tagged reading, and at a reader whose sensor
  type names no member of \<open>SensorType\<close>.
\<close>

theorem validate_reading_iff_witness:
  "\<not> validate_reading example_SensorType example_SENSOR_RANGES example_reader
       (example_reading 150) \<and>
   validate_reading example_SensorType example_SENSOR_RANGES example_reader
       (example_reading 22) \<and>
   \<not> validate_reading example_SensorType example_SENSOR_RANGES example_reader
       example_error_reading \<and>
   \<not> validate_reading example_SensorType example_SENSOR_RANGES
       (example_reader\<lparr>rd_sensor_type := ''custom''\<rparr>) (example_reading 22)"
  using validate_reading_iff [of example_SensorType example_SENSOR_RANGES example_reader
      "example_reading 150"]
    validate_reading_iff [of example_SensorType example_SENSOR_RANGES example_reader
      "example_reading 22"]
    validate_reading_iff [of example_SensorType example_SENSOR_RANGES example_reader
      example_error_reading]
    validate_reading_iff [of example_SensorType example_SENSOR_RANGES
      "example_reader\<lparr>rd_sensor_type := ''custom''\<rparr>" "example_reading 22"]
  by (simp add: some_field_outside_range_def outside_range_def is_valid_def example_sensor_defs)

section \<open>Reading a sensor and the cached last reading\<close>

lemma read_error_keeps_last_reading:
  assumes "read env self = Inr (self', r)" and "error r \<noteq> None"
  shows "last_reading self' = last_reading self"
  using assms
  by (cases "kind self")
    (auto simp: read_def DHT11Reader_read_def DS18B20Reader_read_def MockSensorReader_read_def
      new_reading_def Let_def
      split: if_splits dht_outcome.splits ds18b20_outcome.splits option.splits)

lemma read_success_overwrites_last_reading:
  assumes "read env self = Inr (self', r)" and "error r = None"
    and "kind self = MockSensorReader \<or> sensor_present self"
  shows "last_reading self' = Some r"
  using assms
  by (cases "kind self")
    (auto simp: read_def DHT11Reader_read_def DS18B20Reader_read_def MockSensorReader_read_def
      new_reading_def Let_def
      split: if_splits dht_outcome.splits ds18b20_outcome.splits option.splits)

text \<open>
  Claim C9 says that every \<open>read()\<close> that yields an error-free reading overwrites
  \<open>last_reading\<close> with it, and that a failed read leaves \<open>last_reading\<close> unchanged. The
  two lemmas above are the part the code satisfies: a reading with an error never
  changes \<open>last_reading\<close>, and an error-free reading of \<open>MockSensorReader\<close> or of a reader
  with its hardware present is stored. The fallback branch of \<open>DHT11Reader.read\<close> and of
  \<open>DS18B20Reader.read\<close> (no hardware, synthesised values) breaks the first half: the
  reading it returns is error-free and valid, and the reader is returned unchanged, so
  \<open>get_last_reading()\<close> still answers what it answered before.
\<close>

theorem fallback_read_keeps_last_reading:
  assumes "kind self = DHT11Reader \<or> kind self = DS18B20Reader" and "\<not> sensor_present self"
  shows "\<exists>r. read env self = Inr (self, r) \<and> error r = None \<and> is_valid r"
  using assms
  by (auto simp: read_def DHT11Reader_read_def DS18B20Reader_read_def new_reading_def
      is_valid_def Let_def)

text \<open>
  At the DHT11 reader without hardware, which has never stored a reading: the read yields
  an error-free, valid reading, and \<open>get_last_reading()\<close> is still \<open>None\<close> afterwards.
\<close>

theorem fallback_read_keeps_last_reading_witness:
  "(kind example_reader = DHT11Reader \<or> kind example_reader = DS18B20Reader) \<and>
   \<not> sensor_present example_reader \<and>
   read example_sensor_env example_reader =
     Inr (DHT11Reader_read example_sensor_env example_reader) \<and>
   error (snd (DHT11Reader_read example_sensor_env example_reader)) = None \<and>
   is_valid (snd (DHT11Reader_read example_sensor_env example_reader)) \<and>
   get_last_reading (fst (DHT11Reader_read example_sensor_env example_reader)) = None"
proof -
  have h1: "kind example_reader = DHT11Reader \<or> kind example_reader = DS18B20Reader"
    by (simp add: example_reader_def)
  have h2: "\<not> sensor_present example_reader"
    by (simp add: example_reader_def)
  have l: "get_last_reading example_reader = None"
    by (simp add: get_last_reading_def example_reader_def)
  from fallback_read_keeps_last_reading [OF h1 h2, of example_sensor_env]
  obtain r where r: "read example_sensor_env example_reader = Inr (example_reader, r)"
    and e: "error r = None" and v: "is_valid r"
    by blast
  from r have d: "DHT11Reader_read example_sensor_env example_reader = (example_reader, r)"
    by (simp add: read_def example_reader_def)
  from h1 h2 l r e v d show ?thesis
    by simp
qed

section \<open>One reading per registered sensor\<close>

lemma snd_read_all_loop_Cons:
  "snd (read_all_loop envs ((sid, sensor) # rest) acc) =
     snd (read_all_loop envs rest (AList.update sid (entry_for envs sid sensor) acc))"
  by (simp add: entry_for_def case_prod_beta Let_def split: sum.splits)

lemma read_all_loop_keys:
  "fst ` set (snd (read_all_loop envs sensors acc)) = fst ` set acc \<union> fst ` set sensors"
proof (induction sensors arbitrary: acc)
  case Nil
  then show ?case by simp
next
  case (Cons p sensors)
  obtain sid sensor where p: "p = (sid, sensor)" by (cases p)
  have "fst ` set (AList.update sid v acc) = insert sid (fst ` set acc)" for v
    using dom_update [of sid v acc] by (simp add: dom_map_of_conv_image_fst)
  then show ?case
    unfolding p snd_read_all_loop_Cons Cons.IH by auto
qed

lemma read_all_loop_distinct:
  "distinct (map fst acc) \<Longrightarrow> distinct (map fst (snd (read_all_loop envs sensors acc)))"
proof (induction sensors arbitrary: acc)
  case Nil
  then show ?case by simp
next
  case (Cons p sensors)
  obtain sid sensor where p: "p = (sid, sensor)" by (cases p)
  show ?case
    unfolding p snd_read_all_loop_Cons
    by (rule Cons.IH) (simp add: distinct_update Cons.prems)
qed

lemma read_all_loop_lookup:
  "distinct (map fst sensors) \<Longrightarrow>
     map_of (snd (read_all_loop envs sensors acc)) k =
       (case map_of sensors k of
          None \<Rightarrow> map_of acc k
        | Some sensor \<Rightarrow> Some (entry_for envs k sensor))"
proof (induction sensors arbitrary: acc)
  case Nil
  then show ?case by simp
next
  case (Cons p sensors)
  obtain sid sensor where p: "p = (sid, sensor)" by (cases p)
  from Cons.prems p have d: "distinct (map fst sensors)" and nin: "sid \<notin> fst ` set sensors"
    by simp_all
  from nin have none: "map_of sensors sid = None"
    by (simp add: map_of_eq_None_iff)
  show ?case
    unfolding p snd_read_all_loop_Cons Cons.IH [OF d]
    using none by (simp add: update_conv' split: option.splits)
qed

text \<open>
  Claim C8. For every call of \<open>SensorManager.read_all()\<close>, the returned mapping contains
  exactly one \<open>SensorReading\<close> entry for each registered sensor id, also when the
  \<open>read()\<close> of a sensor raises: then that id maps to an error-tagged reading, and the
  exception does not leave \<open>read_all\<close> (the model of \<open>read_all\<close> always returns the
  mapping). The keys of the result have no duplicates and are the registered ids; the
  registered sensors are the items of a dictionary, so their ids are distinct, and under
  that condition each id maps to the entry of its own sensor.
\<close>

theorem read_all_one_entry_per_sensor:
  "distinct (map fst (snd (read_all envs sensors))) \<and>
   set (map fst (snd (read_all envs sensors))) = set (map fst sensors) \<and>
   (distinct (map fst sensors) \<longrightarrow>
      (\<forall>(sid, sensor)\<in>set sensors.
         map_of (snd (read_all envs sensors)) sid = Some (entry_for envs sid sensor) \<and>
         (\<forall>e. read (envs sid) sensor = Inl e \<longrightarrow>
            map_of (snd (read_all envs sensors)) sid =
              Some ((new_reading (env_now (envs sid)) sid [])\<lparr>error := Some e\<rparr>))))"
proof -
  have 1: "distinct (map fst (snd (read_all envs sensors)))"
    by (simp add: read_all_def read_all_loop_distinct)
  have 2: "set (map fst (snd (read_all envs sensors))) = set (map fst sensors)"
    using read_all_loop_keys [of envs sensors "[]"] by (simp add: read_all_def)
  have 3: "map_of (snd (read_all envs sensors)) sid = Some (entry_for envs sid sensor)"
    if "distinct (map fst sensors)" and "(sid, sensor) \<in> set sensors" for sid sensor
  proof -
    from that have "map_of sensors sid = Some sensor" by simp
    then show ?thesis
      using read_all_loop_lookup [OF that(1), of envs "[]" sid] by (simp add: read_all_def)
  qed
  have 4: "map_of (snd (read_all envs sensors)) sid =
             Some ((new_reading (env_now (envs sid)) sid [])\<lparr>error := Some e\<rparr>)"
    if "distinct (map fst sensors)" and "(sid, sensor) \<in> set sensors"
      and "read (envs sid) sensor = Inl e" for sid sensor e
    using 3 [OF that(1,2)] that(3) by (simp add: entry_for_def)
  from 1 2 3 4 show ?thesis by blast
qed

text \<open>
  At two registered sensors, the second an object of the base class, whose \<open>read()\<close>
  raises \<open>NotImplementedError\<close>: its entry carries the empty string as error.
\<close>

theorem read_all_one_entry_per_sensor_witness:
  "distinct (map fst example_sensors) \<and>
   map fst (snd (read_all (\<lambda>sid. example_sensor_env) example_sensors)) =
     [''sensor_001'', ''sensor_002''] \<and>
   map_of (snd (read_all (\<lambda>sid. example_sensor_env) example_sensors)) ''sensor_002'' =
     Some ((new_reading ''2024-01-01T00:00:00'' ''sensor_002'' [])
             \<lparr>error := Some []\<rparr>)"
proof -
  have h: "distinct (map fst example_sensors)"
    by (simp add: example_sensors_def)
  have r: "read example_sensor_env example_base_reader = Inl []"
    by (simp add: read_def example_base_reader_def)
  have m: "(''sensor_002'', example_base_reader) \<in> set example_sensors"
    by (simp add: example_sensors_def)
  have k: "map fst (snd (read_all (\<lambda>sid. example_sensor_env) example_sensors)) =
     [''sensor_001'', ''sensor_002'']"
    by (simp add: read_all_def example_sensors_def read_def example_base_reader_def
        example_reader_def DHT11Reader_read_def Let_def)
  from read_all_one_entry_per_sensor [of "\<lambda>sid. example_sensor_env" example_sensors] h m r
  have "map_of (snd (read_all (\<lambda>sid. example_sensor_env) example_sensors)) ''sensor_002'' =
     Some ((new_reading (env_now example_sensor_env) ''sensor_002'' [])
             \<lparr>error := Some []\<rparr>)"
    by blast
  with h k show ?thesis
    by (simp add: example_sensor_env_def)
qed


section \<open>Effects of the client operations\<close>

lemma publish_effects_not_reconnect:
  "\<forall>e\<in>set (snd (publish s env tp pl q rt)). \<not> is_reconnect_effect e"
  by (simp add: publish_def split: publish_outcome.splits)

lemma subscribe_effects_not_reconnect:
  "\<forall>e\<in>set (snd (subscribe s env tp q)). \<not> is_reconnect_effect e"
  by (simp add: subscribe_def split: outcome.splits)

lemma connect_effects_not_reconnect:
  "\<forall>e\<in>set (snd (connect s env)). \<not> is_reconnect_effect e"
  by (simp add: connect_def Let_def split: outcome.splits)

lemma disconnect_effects_not_reconnect:
  "\<forall>e\<in>set (snd (disconnect s env)). \<not> is_reconnect_effect e"
  using publish_effects_not_reconnect
  by (auto simp: disconnect_def Let_def publish_status_def)

lemma do_call_effects_not_reconnect:
  "\<forall>e\<in>set (snd (snd (do_call s env c))). \<not> is_reconnect_effect e"
  using publish_effects_not_reconnect subscribe_effects_not_reconnect
    connect_effects_not_reconnect disconnect_effects_not_reconnect
  by (cases c)
    (simp_all add: do_call_def publish_sensor_data_def publish_status_def
      publish_heartbeat_def publish_debug_def)

lemma heartbeat_effects_not_reconnect:
  "\<forall>e\<in>set (heartbeat_loop_body s env). \<not> is_reconnect_effect e"
  using publish_effects_not_reconnect
  by (auto simp: heartbeat_loop_body_def publish_heartbeat_def)

lemma do_call_connected: "connected (fst (do_call s env c)) = connected s"
  by (cases c) (simp_all add: do_call_def disconnect_def Let_def)

lemma do_call_reconnect_attempts:
  "reconnect_attempts (fst (do_call s env c)) = reconnect_attempts s"
  by (cases c) (simp_all add: do_call_def disconnect_def Let_def)

lemma do_call_max_reconnect_attempts:
  "max_reconnect_attempts (fst (do_call s env c)) = max_reconnect_attempts s"
  by (cases c) (simp_all add: do_call_def disconnect_def Let_def)

section \<open>Reconnection: exhaustion and backoff\<close>

lemma attempt_reconnect_exhausted:
  "max_reconnect_attempts s \<le> int (reconnect_attempts s) \<Longrightarrow> attempt_reconnect s = (s, [])"
  by (simp add: attempt_reconnect_def)

lemma step_exhausted:
  assumes "exhausted s" and "\<not> establishes_connection ev"
  shows "exhausted (fst (step s ev)) \<and> (\<forall>e\<in>set (snd (step s ev)). \<not> is_reconnect_effect e)"
proof (cases ev)
  case (Pair e env)
  show ?thesis
  proof (cases e)
    case (Call c)
    with Pair assms(1) show ?thesis
      using do_call_effects_not_reconnect [of s env c]
      by (simp add: step_def exhausted_def do_call_connected do_call_reconnect_attempts
          do_call_max_reconnect_attempts)
  next
    case (OnConnect rc)
    with Pair assms show ?thesis
      by (simp add: step_def on_connect_def)
  next
    case (OnDisconnect rc)
    with Pair assms(1) show ?thesis
      by (simp add: step_def on_disconnect_def Let_def exhausted_def attempt_reconnect_exhausted)
  next
    case HeartbeatTick
    with Pair assms(1) show ?thesis
      using heartbeat_effects_not_reconnect [of s env]
      by (simp add: step_def)
  qed
qed

lemma run_exhausted:
  assumes "exhausted s" and "\<forall>ev\<in>set evs. \<not> establishes_connection ev"
  shows "(\<forall>e\<in>set (run_effects s evs). \<not> is_reconnect_effect e) \<and>
         (\<forall>s'\<in>set (run_states s evs). exhausted s')"
  using assms
proof (induction evs arbitrary: s)
  case Nil
  then show ?case by simp
next
  case (Cons ev evs)
  from Cons.prems have st: "exhausted (fst (step s ev))"
    and eff: "\<forall>e\<in>set (snd (step s ev)). \<not> is_reconnect_effect e"
    using step_exhausted [of s ev] by simp_all
  from Cons.IH [OF st] Cons.prems(2)
  have "(\<forall>e\<in>set (run_effects (fst (step s ev)) evs). \<not> is_reconnect_effect e) \<and>
        (\<forall>s'\<in>set (run_states (fst (step s ev)) evs). exhausted s')"
    by simp
  with eff Cons.prems(1) show ?case by auto
qed

text \<open>
  Claim C1 as it is written speaks of every run that makes no manual \<open>connect()\<close>. It
  fails when the last permitted reconnect attempt succeeds. The client below is allowed
  one attempt; after a drop it has slept, called \<open>reconnect()\<close>, and is disconnected with
  \<open>reconnect_attempts = max_reconnect_attempts = 1\<close>. The acknowledgement of that
  reconnect then arrives: \<open>_on_connect\<close> sets \<open>connected\<close> and resets the counter with no
  \<open>connect()\<close> call in the run, and the next drop starts a new automatic attempt.
\<close>

theorem no_reconnect_after_max_attempts_counterexample:
  "\<not> connected example_single_attempt_client \<and>
   max_reconnect_attempts example_single_attempt_client
     \<le> int (reconnect_attempts example_single_attempt_client) \<and>
   list_all (\<lambda>ev. \<not> is_manual_connect ev)
     [(OnConnect 0, example_env), (OnDisconnect 1, example_env)] \<and>
   status_connected (get_status
     (run example_single_attempt_client [(OnConnect 0, example_env)])) \<and>
   \<not> list_all (\<lambda>s'. \<not> status_connected (get_status s'))
     (run_states example_single_attempt_client
        [(OnConnect 0, example_env), (OnDisconnect 1, example_env)]) \<and>
   \<not> list_all (\<lambda>e. \<not> is_reconnect_effect e)
     (run_effects example_single_attempt_client
        [(OnConnect 0, example_env), (OnDisconnect 1, example_env)])"
proof -
  have s: "example_single_attempt_client =
     \<lparr>config = example_config\<lparr>cfg_max_reconnect_attempts := Some 1\<rparr>, client_id = ''pi_01'',
      client = True, connected = False, reconnect_attempts = 1, max_reconnect_attempts = 1,
      stop_event = False, heartbeat_thread = True, on_connect_callback = False,
      on_disconnect_callback = False\<rparr>"
    by (simp add: example_single_attempt_client_def example_client_defs client_defs)
  show ?thesis
    unfolding s by (simp add: example_client_defs client_defs)
qed

text \<open>
  Claim C1, amended. For every run in which the client is disconnected,
  \<open>reconnect_attempts\<close> has reached \<open>max_reconnect_attempts\<close>, and no connect
  acknowledgement with the success code is delivered afterwards (the reconnect attempts
  have all failed, and no manual \<open>connect()\<close> has been acknowledged), no further
  automatic reconnect attempt is ever issued (no backoff sleep, no \<open>reconnect()\<close> call),
  and \<open>get_status()\<close> reports \<open>connected == false\<close> in every state of the run. The run
  may contain any other event: disconnect callbacks with any code, failed
  acknowledgements, heartbeat passes, and any call, \<open>connect()\<close> included, which by
  itself writes no attribute.
\<close>

theorem no_reconnect_after_max_attempts:
  assumes "\<not> connected s"
    and "max_reconnect_attempts s \<le> int (reconnect_attempts s)"
    and "\<forall>ev\<in>set evs. \<not> establishes_connection ev"
  shows "(\<forall>e\<in>set (run_effects s evs). \<not> is_reconnect_effect e) \<and>
         (\<forall>s'\<in>set (run_states s evs). \<not> status_connected (get_status s'))"
  using run_exhausted [of s evs] assms
  by (simp add: exhausted_def get_status_def)

text \<open>
  At a client with the default of 10 attempts used up, through a run with two disconnect
  callbacks, a failed acknowledgement, a publish, a \<open>connect()\<close> and a heartbeat pass:
  the only effects are those of \<open>connect()\<close>.
\<close>

theorem no_reconnect_after_max_attempts_witness:
  "\<not> connected (example_client\<lparr>reconnect_attempts := 10\<rparr>) \<and>
   max_reconnect_attempts (example_client\<lparr>reconnect_attempts := 10\<rparr>)
     \<le> int (reconnect_attempts (example_client\<lparr>reconnect_attempts := 10\<rparr>)) \<and>
   list_all (\<lambda>ev. \<not> establishes_connection ev) example_events \<and>
   list_all (\<lambda>e. \<not> is_reconnect_effect e)
     (run_effects (example_client\<lparr>reconnect_attempts := 10\<rparr>) example_events) \<and>
   list_all (\<lambda>s'. \<not> status_connected (get_status s'))
     (run_states (example_client\<lparr>reconnect_attempts := 10\<rparr>) example_events) \<and>
   run_effects (example_client\<lparr>reconnect_attempts := 10\<rparr>) example_events =
     [ClientConnect ''broker.local'' 1883 60, LoopStart]"
proof -
  let ?s = "example_client\<lparr>reconnect_attempts := 10\<rparr>"
  have h1: "\<not> connected ?s"
    by (simp add: example_client_defs)
  have h2: "max_reconnect_attempts ?s \<le> int (reconnect_attempts ?s)"
    by (simp add: example_client_defs)
  have h3: "\<forall>ev\<in>set example_events. \<not> establishes_connection ev"
    by (simp add: example_events_def)
  have eff: "run_effects ?s example_events = [ClientConnect ''broker.local'' 1883 60, LoopStart]"
    by (simp add: example_events_def example_client_defs client_defs)
  from no_reconnect_after_max_attempts [OF h1 h2 h3] h1 h2 h3 eff
  show ?thesis
    by (simp add: list_all_iff)
qed

text \<open>
  Claim C2. For every reconnect attempt \<open>n\<close> with \<open>1 \<le> n \<le> max_reconnect_attempts\<close>,
  the backoff delay slept before issuing the reconnect call equals \<open>min(30, 2^n)\<close>
  seconds. Attempt \<open>n\<close> is the call of \<open>_attempt_reconnect\<close> that finds the counter at
  \<open>n - 1\<close>: it sets the counter to \<open>n\<close>, sleeps, and then calls \<open>reconnect()\<close>.
\<close>

theorem backoff_delay:
  assumes "1 \<le> n" and "int n \<le> max_reconnect_attempts s" and "reconnect_attempts s + 1 = n"
  shows "attempt_reconnect s =
    (s\<lparr>reconnect_attempts := n\<rparr>,
     Sleep (min 30 (2 ^ n)) # (if client s then [ClientReconnect] else []))"
  using assms by (auto simp: attempt_reconnect_def Let_def)

text \<open>At the fifth attempt, where the cap applies: \<open>2^5 = 32\<close>, the sleep is 30.\<close>

theorem backoff_delay_witness:
  "(1::nat) \<le> 5 \<and>
   int 5 \<le> max_reconnect_attempts (example_client\<lparr>reconnect_attempts := 4\<rparr>) \<and>
   reconnect_attempts (example_client\<lparr>reconnect_attempts := 4\<rparr>) + 1 = 5 \<and>
   attempt_reconnect (example_client\<lparr>reconnect_attempts := 4\<rparr>) =
     (example_client\<lparr>reconnect_attempts := 5\<rparr>, [Sleep 30, ClientReconnect])"
proof -
  let ?s = "example_client\<lparr>reconnect_attempts := 4\<rparr>"
  have h1: "(1::nat) \<le> 5" by simp
  have h2: "int 5 \<le> max_reconnect_attempts ?s"
    by (simp add: example_client_defs)
  have h3: "reconnect_attempts ?s + 1 = 5"
    by (simp add: example_client_defs)
  have c: "client ?s"
    by (simp add: example_client_defs)
  from backoff_delay [OF h1 h2 h3] h1 h2 h3 c
  show ?thesis
    by simp
qed


section \<open>Deliberate disconnect\<close>

lemma step_stop_event:
  assumes "stop_event s"
  shows "stop_event (fst (step s ev))"
proof (cases ev)
  case (Pair e env)
  show ?thesis
  proof (cases e)
    case (Call c)
    with Pair assms show ?thesis
      by (cases c) (simp_all add: step_def do_call_def disconnect_def Let_def)
  next
    case (OnConnect rc)
    with Pair assms show ?thesis
      by (simp add: step_def on_connect_def Let_def start_heartbeat_def)
  next
    case (OnDisconnect rc)
    with Pair assms show ?thesis
      by (simp add: step_def on_disconnect_def Let_def)
  next
    case HeartbeatTick
    with Pair assms show ?thesis
      by (simp add: step_def)
  qed
qed

lemma run_stop_event: "stop_event s \<Longrightarrow> stop_event (run s evs)"
  by (induction evs arbitrary: s) (simp_all add: step_stop_event)

lemma disconnect_sets_stop_event: "client s \<Longrightarrow> stop_event (fst (disconnect s env))"
  by (simp add: disconnect_def Let_def)

lemma on_disconnect_stopped:
  "stop_event s \<Longrightarrow>
     on_disconnect s rc =
       (s\<lparr>connected := False\<rparr>, if on_disconnect_callback s then [DisconnectCallback] else [])"
  by (simp add: on_disconnect_def Let_def)

text \<open>
  Claim C3. If \<open>disconnect()\<close> has been called deliberately (the stop flag is set), then
  a subsequent transport disconnect callback reporting a non-clean disconnect code never
  triggers the automatic reconnect path: no reconnect attempt is incremented and no
  backoff sleep occurs. The callback may come at any later point: \<open>evs\<close> is whatever
  happens between the \<open>disconnect()\<close> and the callback.
\<close>

theorem deliberate_disconnect_suppresses_reconnect:
  assumes "stop_event (fst (disconnect s env))" and "rc \<noteq> MQTT_ERR_SUCCESS"
  shows "reconnect_attempts (fst (on_disconnect (run (fst (disconnect s env)) evs) rc)) =
           reconnect_attempts (run (fst (disconnect s env)) evs) \<and>
         (\<forall>e\<in>set (snd (on_disconnect (run (fst (disconnect s env)) evs) rc)).
            \<not> is_reconnect_effect e)"
proof -
  have "stop_event (run (fst (disconnect s env)) evs)"
    using assms(1) by (rule run_stop_event)
  then show ?thesis
    by (simp add: on_disconnect_stopped)
qed

text \<open>
  At a connected client that is disconnected deliberately; the transport then reports
  code 7 (connection lost), twice within the run and once more after it.
\<close>

theorem deliberate_disconnect_suppresses_reconnect_witness:
  "stop_event (fst (disconnect (example_client\<lparr>connected := True\<rparr>) example_env)) \<and>
   7 \<noteq> MQTT_ERR_SUCCESS \<and>
   reconnect_attempts
     (fst (on_disconnect
            (run (fst (disconnect (example_client\<lparr>connected := True\<rparr>) example_env))
               example_events) 7)) = 0 \<and>
   snd (on_disconnect
          (run (fst (disconnect (example_client\<lparr>connected := True\<rparr>) example_env))
             example_events) 7) = []"
proof -
  let ?s = "example_client\<lparr>connected := True\<rparr>"
  have "client ?s"
    by (simp add: example_client_defs)
  then have h1: "stop_event (fst (disconnect ?s example_env))"
    by (rule disconnect_sets_stop_event)
  have h2: "7 \<noteq> MQTT_ERR_SUCCESS"
    by (simp add: MQTT_ERR_SUCCESS_def)
  have e: "snd (on_disconnect (run (fst (disconnect ?s example_env)) example_events) 7) = []"
    by (simp add: example_events_def example_client_defs client_defs)
  have a: "reconnect_attempts (run (fst (disconnect ?s example_env)) example_events) = 0"
    by (simp add: example_events_def example_client_defs client_defs)
  from deliberate_disconnect_suppresses_reconnect [OF h1 h2, of example_events] h1 h2 e a
  show ?thesis
    by simp
qed

section \<open>Publishing without a connection\<close>

text \<open>
  Claim C4. Whenever \<open>publish_sensor_data\<close> is called while the client is not
  connected, it returns false and submits no message to the broker transport.
\<close>

theorem publish_sensor_data_disconnected:
  "\<not> connected s \<Longrightarrow> publish_sensor_data s env sid data = (False, [])"
  by (simp add: publish_sensor_data_def)

text \<open>At the freshly constructed client, which has not connected yet.\<close>

theorem publish_sensor_data_disconnected_witness:
  "\<not> connected example_client \<and>
   publish_sensor_data example_client example_env ''sensor_001'' [] = (False, [])"
proof -
  have h: "\<not> connected example_client"
    by (simp add: example_client_defs)
  from publish_sensor_data_disconnected [OF h] h show ?thesis
    by simp
qed

lemma do_call_without_client:
  "\<not> client s \<Longrightarrow> \<not> connected s \<Longrightarrow> do_call s env c = (s, call_result_without_client c, [])"
  by (cases c)
    (simp_all add: do_call_def call_result_without_client_def connect_def disconnect_def
      publish_sensor_data_def publish_status_def publish_heartbeat_def publish_debug_def
      publish_def subscribe_def)

lemma run_calls_without_client:
  "\<not> client s \<Longrightarrow> \<not> connected s \<Longrightarrow>
     run_calls s cs = (s, map (\<lambda>c. call_result_without_client (fst c)) cs)"
  by (induction cs) (simp_all add: do_call_without_client)

text \<open>
  Claim C10. If an \<open>MQTTClient\<close> is constructed while the MQTT library is unavailable
  (its underlying client is \<open>None\<close>), then \<open>connect()\<close> returns false, \<open>connected\<close>
  remains false, and every publish helper (\<open>publish_status\<close>, \<open>publish_heartbeat\<close>,
  \<open>publish_debug\<close>, \<open>publish_sensor_data\<close>) returns false. The last conjunct says it for
  any sequence of calls: the client stays exactly as constructed, and every call that
  returns a value returns false. No callback can reach such a client, since the callbacks
  are registered on the paho client, which does not exist.
\<close>

theorem client_unavailable:
  "connect (MQTTClient_init cfg cid uuid8 False) env = (False, []) \<and>
   \<not> connected (MQTTClient_init cfg cid uuid8 False) \<and>
   fst (publish_status (MQTTClient_init cfg cid uuid8 False) env status reason) = False \<and>
   fst (publish_heartbeat (MQTTClient_init cfg cid uuid8 False) env) = False \<and>
   fst (publish_debug (MQTTClient_init cfg cid uuid8 False) env message data) = False \<and>
   fst (publish_sensor_data (MQTTClient_init cfg cid uuid8 False) env sid d) = False \<and>
   run_calls (MQTTClient_init cfg cid uuid8 False) cs =
     (MQTTClient_init cfg cid uuid8 False, map (\<lambda>c. call_result_without_client (fst c)) cs)"
proof -
  have c: "\<not> client (MQTTClient_init cfg cid uuid8 False)"
    and n: "\<not> connected (MQTTClient_init cfg cid uuid8 False)"
    by (simp_all add: MQTTClient_init_def)
  show ?thesis
    using c n
    by (simp add: run_calls_without_client connect_def publish_status_def publish_heartbeat_def
        publish_debug_def publish_sensor_data_def publish_def)
qed

text \<open>
  At a client constructed without a client id, through \<open>connect()\<close>, a heartbeat, a
  \<open>disconnect()\<close> and a sensor-data publish.
\<close>

theorem client_unavailable_witness:
  "connect (MQTTClient_init example_config None ''0a1b2c3d'' False) example_env = (False, []) \<and>
   \<not> connected (fst (run_calls (MQTTClient_init example_config None ''0a1b2c3d'' False)
     example_calls)) \<and>
   snd (run_calls (MQTTClient_init example_config None ''0a1b2c3d'' False) example_calls) =
     [Some False, Some False, None, Some False]"
  using client_unavailable [of example_config None "''0a1b2c3d''" example_env "''online''" None
      "''hello''" None "''sensor_001''" "[]" example_calls]
  by (simp add: call_result_without_client_def example_calls_def)

section \<open>The poll cycle\<close>

lemma sensor_data_calls_append:
  "sensor_data_calls (xs @ ys) = sensor_data_calls xs @ sensor_data_calls ys"
  by (induction xs rule: sensor_data_calls.induct) simp_all

lemma publish_sensor_reading_connected:
  "connected c \<Longrightarrow>
     sensor_data_calls (publish_sensor_reading (Some c) env sid r) = [(sid, to_dict r)]"
  by (simp add: publish_sensor_reading_def is_connected_def Let_def case_prod_beta)

lemma publish_sensor_reading_not_connected:
  "\<not> connected c \<Longrightarrow> publish_sensor_reading (Some c) env sid r = [NotConnectedWarning sid]"
  by (simp add: publish_sensor_reading_def is_connected_def)

lemma publish_readings_connected:
  "connected c \<Longrightarrow>
     sensor_data_calls (publish_readings (Some c) envs readings) =
       map (\<lambda>(sid, r). (sid, to_dict r)) (filter (\<lambda>(sid, r). is_valid r) readings)"
  by (induction readings)
    (auto simp: sensor_data_calls_append publish_sensor_reading_connected)

lemma publish_readings_not_connected:
  "\<not> connected c \<Longrightarrow> sensor_data_calls (publish_readings (Some c) envs readings) = []"
  by (induction readings)
    (auto simp: sensor_data_calls_append publish_sensor_reading_not_connected)

text \<open>
  Claim C7 as it is written says that in every poll cycle each valid reading is published
  through \<open>publish_sensor_data\<close>. It fails in a cycle that runs while the broker client
  is not connected: \<open>_publish_sensor_reading\<close> returns at its guard
  \<open>if not self.mqtt_client or not self.mqtt_client.is_connected()\<close>, and the valid
  reading of the sensor is skipped with a warning, without a call of
  \<open>publish_sensor_data\<close>.
\<close>

theorem valid_readings_published_counterexample:
  "list_all (\<lambda>(sid, r). is_valid r)
     (snd (read_all (\<lambda>sid. example_sensor_env) [(''sensor_001'', example_reader)])) \<and>
   map fst (snd (read_all (\<lambda>sid. example_sensor_env) [(''sensor_001'', example_reader)])) =
     [''sensor_001''] \<and>
   \<not> is_connected example_client \<and>
   snd (main_loop_cycle [(''sensor_001'', example_reader)] (Some example_client)
          (\<lambda>sid. example_sensor_env) (\<lambda>sid. example_env)) =
     [NotConnectedWarning ''sensor_001''] \<and>
   sensor_data_calls
     (snd (main_loop_cycle [(''sensor_001'', example_reader)] (Some example_client)
          (\<lambda>sid. example_sensor_env) (\<lambda>sid. example_env))) = []"
  by (simp add: main_loop_cycle_def read_all_def read_def DHT11Reader_read_def Let_def
      example_reader_def example_sensor_env_def new_reading_def is_valid_def
      publish_sensor_reading_def is_connected_def example_client_defs)

text \<open>
  Claim C7, amended. In every poll cycle of the agent's main loop that runs while the
  broker client is connected, each reading \<open>r\<close> with \<open>r.is_valid()\<close> true is passed to
  \<open>publish_sensor_data\<close>, and no other reading is, regardless of the result of
  \<open>validate_reading(r)\<close>: the loop never calls the range check, so readings outside
  physical ranges are still published.
\<close>

theorem valid_readings_published_when_connected:
  assumes "is_connected c"
  shows "sensor_data_calls (snd (main_loop_cycle sensors (Some c) senvs menvs)) =
           map (\<lambda>(sid, r). (sid, to_dict r))
             (filter (\<lambda>(sid, r). is_valid r) (snd (read_all senvs sensors)))"
  using assms
  by (simp add: main_loop_cycle_def case_prod_beta is_connected_def publish_readings_connected)

lemma example_round_150: "example_round 150 (Suc 0) = 150"
  by (simp add: example_round_def)

lemma example_round_60: "example_round 60 (Suc 0) = 60"
  by (simp add: example_round_def)

text \<open>
  At a connected client and a DHT11 whose driver reports 150 degrees: the reading is
  valid, the range check rejects it, and the cycle passes it to \<open>publish_sensor_data\<close>.
\<close>

theorem valid_readings_published_when_connected_witness:
  "is_connected (example_client\<lparr>connected := True\<rparr>) \<and>
   snd (read_all (\<lambda>sid. example_hot_env) [(''sensor_001'', example_hardware_reader)]) =
     [(''sensor_001'', example_reading 150)] \<and>
   is_valid (example_reading 150) \<and>
   \<not> validate_reading example_SensorType example_SENSOR_RANGES example_hardware_reader
       (example_reading 150) \<and>
   sensor_data_calls
     (snd (main_loop_cycle [(''sensor_001'', example_hardware_reader)]
        (Some (example_client\<lparr>connected := True\<rparr>)) (\<lambda>sid. example_hot_env)
        (\<lambda>sid. example_env))) =
     [(''sensor_001'', to_dict (example_reading 150))]"
proof -
  let ?c = "example_client\<lparr>connected := True\<rparr>"
  have h: "is_connected ?c"
    by (simp add: is_connected_def)
  have r: "snd (read_all (\<lambda>sid. example_hot_env) [(''sensor_001'', example_hardware_reader)]) =
     [(''sensor_001'', example_reading 150)]"
    by (simp add: read_all_def read_def DHT11Reader_read_def Let_def example_round_150
        example_round_60 example_hardware_reader_def example_hot_env_def example_sensor_env_def
        example_sensor_defs)
  have v: "is_valid (example_reading 150)"
    by (simp add: is_valid_def example_sensor_defs)
  have n: "\<not> validate_reading example_SensorType example_SENSOR_RANGES example_hardware_reader
       (example_reading 150)"
    by (simp add: validate_reading_def is_valid_def get_or_empty_def below_min_def
        above_max_def example_hardware_reader_def example_sensor_defs)
  from valid_readings_published_when_connected [OF h,
      of "[(''sensor_001'', example_hardware_reader)]" "\<lambda>sid. example_hot_env"
        "\<lambda>sid. example_env"] h r v n
  show ?thesis
    by simp
qed


end
